theory Spec2Isabelle
  imports Complex_Main "HOL-Library.Char_ord" "HOL-Library.List_Lexorder"
begin

section \<open>JavaScript values used by the map page\<close>

text \<open>
  A JavaScript \<^verbatim>\<open>Set<T>\<close> keeps its elements in insertion order and never holds an
  element twice. It is modelled as the list of its elements in insertion order;
  \<open>set_add\<close> appends an element that is not there yet, \<open>set_delete\<close> removes it,
  \<open>new_Set\<close> builds a set from an iterable (first occurrence wins).
\<close>

type_synonym 'a js_set = "'a list"

definition set_has :: "'a js_set \<Rightarrow> 'a \<Rightarrow> bool" where
  "set_has s x = (x \<in> set s)"

definition set_add :: "'a js_set \<Rightarrow> 'a \<Rightarrow> 'a js_set" where
  "set_add s x = (if set_has s x then s else s @ [x])"

definition set_delete :: "'a js_set \<Rightarrow> 'a \<Rightarrow> 'a js_set" where
  "set_delete s x = filter (\<lambda>y. y \<noteq> x) s"

definition new_Set :: "'a list \<Rightarrow> 'a js_set" where
  "new_Set xs = fold (\<lambda>x s. set_add s x) xs []"

text \<open>
  \<^verbatim>\<open>x || d\<close> on an optional string: \<^verbatim>\<open>undefined\<close> and the empty string are falsy,
  every other string is truthy.
\<close>

definition or_else :: "string option \<Rightarrow> string \<Rightarrow> string" where
  "or_else x d = (case x of None \<Rightarrow> d | Some s \<Rightarrow> if s = [] then d else s)"

section \<open>Types of \<^verbatim>\<open>types/map.ts\<close>\<close>

text \<open>
  JavaScript numbers are modelled as real numbers: the claims below are about which
  formula the code applies, not about rounding.
\<close>

record MapViewState =
  latitude :: real
  longitude :: real
  zoom :: real
  bearing :: real
  pitch :: real

record MapFilters =
  region :: "string option"
  department :: "string option"
  commune :: "string option"
  treeSpecies :: "string list option"
  showCadastre :: bool
  dateRange :: "(real \<times> real) option"

record GeospatialQuery =
  q_bbox :: "(real \<times> real \<times> real \<times> real) option"
  q_zoom :: real
  q_filters :: "MapFilters option"
  q_limit :: "nat option"
  q_page :: "nat option"

datatype Geometry = Polygon "(real \<times> real) list list"

text \<open>
  A GeoJSON feature; \<open>'p\<close> is the shape of its \<^verbatim>\<open>properties\<close> object, which GeoJSON
  allows to be \<^verbatim>\<open>null\<close>.
\<close>

record 'p Feature =
  properties :: "'p option"
  geometry :: Geometry

record 'p FeatureCollection =
  fc_type :: string
  features :: "'p Feature list"

text \<open>
  The properties the forest endpoint's features carry that the client reads; each is a
  string when it is there.
\<close>

record ForestProperties =
  p_species :: "string option"
  p_commonName :: "string option"

record ForestLayer =
  layer_id :: string
  layer_name :: string
  layer_type :: string
  visible :: bool
  opacity :: real
  species :: "string option"
  geoData :: "ForestProperties FeatureCollection"

section \<open>Visibility tracking (\<^verbatim>\<open>hooks/useMapsPage.ts\<close>)\<close>

text \<open>
  The updater passed to \<^verbatim>\<open>setVisibleLayerIds\<close> by the effect that runs when the fetched
  layers change. \<^verbatim>\<open>JSON.stringify\<close> is injective on arrays of strings, so the comparison
  of the two serialisations is the comparison of the two sorted arrays; \<open>sort\<close> orders
  strings lexicographically by character code, as the default \<^verbatim>\<open>Array.prototype.sort\<close>
  does. The second loop deletes only the element it is visiting, so it visits every
  element of the set as it stood when the loop began.
\<close>

definition syncVisibleLayerIds :: "ForestLayer list \<Rightarrow> string js_set \<Rightarrow> string js_set" where
  "syncVisibleLayerIds fetchedForestLayers prev =
     (let fetchedIds = new_Set (map layer_id fetchedForestLayers);
          fetchedIdsString = sort fetchedIds;
          prevIdsString = sort prev
      in if prevIdsString = fetchedIdsString then prev
         else
           let newSet = new_Set prev;
               newSet1 = fold (\<lambda>layer s. if \<not> set_has s (layer_id layer)
                                            then set_add s (layer_id layer) else s)
                           fetchedForestLayers newSet;
               newSet2 = fold (\<lambda>ident s. if \<not> set_has fetchedIds ident
                                            then set_delete s ident else s)
                           newSet1 newSet1
           in newSet2)"

text \<open>
  The layers the page hands to the map: every fetched layer, marked visible when its id is
  in the tracked set.
\<close>

definition visibleForestLayers :: "ForestLayer list \<Rightarrow> string js_set \<Rightarrow> ForestLayer list" where
  "visibleForestLayers fetchedForestLayers visibleLayerIds =
     map (\<lambda>layer. layer\<lparr>visible := set_has visibleLayerIds (layer_id layer)\<rparr>)
         fetchedForestLayers"

definition toggleLayer :: "string \<Rightarrow> string js_set \<Rightarrow> string js_set" where
  "toggleLayer layerId prev =
     (let newSet = new_Set prev
      in if set_has newSet layerId then set_delete newSet layerId
         else set_add newSet layerId)"

section \<open>Map utilities (\<^verbatim>\<open>lib/mapUtils.ts\<close>)\<close>

record LatLng =
  lat :: real
  lng :: real

text \<open>\<^verbatim>\<open>Math.pow(2, y)\<close> is \<open>2 powr y\<close> on the reals.\<close>

definition calculateBoundingBox :: "LatLng \<Rightarrow> real \<Rightarrow> real \<times> real \<times> real \<times> real" where
  "calculateBoundingBox center z =
     (let zoomFactor = 2 powr (14 - z);
          deltaLat = 0.01 * zoomFactor;
          deltaLng = 0.015 * zoomFactor
      in (lng center - deltaLng, lat center - deltaLat,
          lng center + deltaLng, lat center + deltaLat))"

section \<open>Query builder and client-side filter (\<^verbatim>\<open>hooks/useGeoLayers.ts\<close>)\<close>

text \<open>\<^verbatim>\<open>Math.round\<close> rounds to the nearest integer, halves upwards.\<close>

definition Math_round :: "real \<Rightarrow> real" where
  "Math_round x = of_int \<lfloor>x + 1 / 2\<rfloor>"

definition geoQuery :: "MapViewState \<Rightarrow> MapFilters \<Rightarrow> GeospatialQuery" where
  "geoQuery debouncedViewState filters =
     \<lparr> q_bbox = Some (longitude debouncedViewState - 0.5,
                      latitude debouncedViewState - 0.5,
                      longitude debouncedViewState + 0.5,
                      latitude debouncedViewState + 0.5),
       q_zoom = Math_round (zoom debouncedViewState),
       q_filters = Some (filters\<lparr>treeSpecies := None\<rparr>),
       q_limit = Some 100,
       q_page = None \<rparr>"

text \<open>
  The \<^verbatim>\<open>queryKey\<close> of the forest query. \<open>geoQuery\<close> always carries a filters object;
  the spread of an absent one is not representable in \<open>MapFilters\<close> and stays absent.
\<close>

definition forestQueryKey :: "GeospatialQuery \<Rightarrow> string \<times> string \<times> GeospatialQuery" where
  "forestQueryKey q =
     (''geoLayers'', ''forest'',
      q\<lparr>q_filters := (case q_filters q of None \<Rightarrow> None
                        | Some f \<Rightarrow> Some (f\<lparr>treeSpecies := None\<rparr>))\<rparr>)"

text \<open>The function that \<^verbatim>\<open>filteredForestLayers\<close> hands to \<^verbatim>\<open>useMemo\<close>.\<close>

definition filterForestLayers :: "ForestLayer list \<Rightarrow> MapFilters \<Rightarrow> ForestLayer list" where
  "filterForestLayers forestLayers filters =
     (case treeSpecies filters of
        None \<Rightarrow> forestLayers
      | Some sel \<Rightarrow>
          if length sel = 0 then forestLayers
          else filter (\<lambda>layer. or_else (species layer) [] \<in> set sel) forestLayers)"

text \<open>\<^verbatim>\<open>Array.prototype.join(',')\<close> on an array of strings.\<close>

fun join_comma :: "string list \<Rightarrow> string" where
  "join_comma [] = []"
| "join_comma [x] = x"
| "join_comma (x # y # ys) = x @ '','' @ join_comma (y # ys)"

text \<open>
  What \<^verbatim>\<open>useMemo\<close> keeps between two renders: the dependencies of the render that
  computed the value, and the value. The dependencies are
  \<^verbatim>\<open>[forestLayers, filters.treeSpecies?.join(',')]\<close> and are compared with
  \<^verbatim>\<open>Object.is\<close>: the array of layers by its identity, for which \<open>memo_layers_ref\<close>
  stands, and the joined selection as a string (absent when the selection is).
\<close>

record filter_memo =
  memo_layers_ref :: nat
  memo_species_key :: "string option"
  memo_value :: "ForestLayer list"

text \<open>
  One render of \<^verbatim>\<open>filteredForestLayers\<close>: the first render computes the value, a later
  one computes it again only when a dependency has changed. The layers the hook returns
  are \<open>memo_value\<close> of the result.
\<close>

definition filteredForestLayers ::
  "filter_memo option \<Rightarrow> nat \<Rightarrow> ForestLayer list \<Rightarrow> MapFilters \<Rightarrow> filter_memo" where
  "filteredForestLayers memo layersRef forestLayers filters =
     (let key = map_option join_comma (treeSpecies filters);
          computed = \<lparr> memo_layers_ref = layersRef, memo_species_key = key,
                       memo_value = filterForestLayers forestLayers filters \<rparr>
      in case memo of
           None \<Rightarrow> computed
         | Some m \<Rightarrow>
             if memo_layers_ref m = layersRef \<and> memo_species_key m = key then m
             else computed)"

section \<open>HTTP client (\<^verbatim>\<open>services/api.ts\<close>)\<close>

record request_config =
  req_method :: string
  req_url :: string
  req_params :: "(string \<times> string) list"
  req_headers :: "(string \<times> string) list"

text \<open>
  \<open>authToken\<close> is the token found in local storage (the callers below pass no token of
  their own); an absent or empty token leaves the request as it is.
\<close>

definition addAuthHeader :: "request_config \<Rightarrow> string option \<Rightarrow> request_config" where
  "addAuthHeader config authToken =
     (case authToken of
        None \<Rightarrow> config
      | Some t \<Rightarrow>
          if t = [] then config
          else config\<lparr>req_headers :=
                 filter (\<lambda>h. fst h \<noteq> ''Authorization'') (req_headers config)
                 @ [(''Authorization'', ''Bearer '' @ t)]\<rparr>)"

datatype js_error = Error string | RequestFailed

text \<open>
  What the forest endpoint answered: \<^verbatim>\<open>response.data\<close> may be absent, and when it is
  there its \<^verbatim>\<open>features\<close> key may be.
\<close>

record forest_body =
  body_type :: string
  body_features :: "ForestProperties Feature list option"

record forest_response =
  response_data :: "forest_body option"

type_synonym forest_client = "request_config \<Rightarrow> js_error + forest_response"

section \<open>Geospatial service (\<^verbatim>\<open>services/geoService.ts\<close>)\<close>

definition forestRequest :: "GeospatialQuery \<Rightarrow> string option \<Rightarrow> request_config" where
  "forestRequest query authToken =
     (let species_opt =
            (case q_filters query of
               None \<Rightarrow> None
             | Some f \<Rightarrow> (case treeSpecies f of
                            None \<Rightarrow> None
                          | Some [] \<Rightarrow> None
                          | Some (s # rest) \<Rightarrow> Some s));
          params = (case species_opt of
                      None \<Rightarrow> []
                    | Some s \<Rightarrow> if s = [] then [] else [(''species'', s)])
      in addAuthHeader \<lparr> req_method = ''GET'', req_url = ''/geo/forest'',
                         req_params = params, req_headers = [] \<rparr> authToken)"

text \<open>The body of the \<^verbatim>\<open>try\<close> block: \<open>Inl\<close> is a thrown error.\<close>

definition getForestData_try ::
  "forest_client \<Rightarrow> string option \<Rightarrow> GeospatialQuery \<Rightarrow> js_error + ForestProperties FeatureCollection"
where
  "getForestData_try apiClient authToken query =
     (case apiClient (forestRequest query authToken) of
        Inl e \<Rightarrow> Inl e
      | Inr response \<Rightarrow>
          (case response_data response of
             None \<Rightarrow> Inl (Error ''Invalid response from forest API'')
           | Some d \<Rightarrow>
               (case body_features d of
                  None \<Rightarrow> Inl (Error ''Invalid response from forest API'')
                | Some fs \<Rightarrow> Inr \<lparr> fc_type = body_type d, features = fs \<rparr>)))"

text \<open>The \<^verbatim>\<open>catch\<close> block turns every thrown error into the empty collection.\<close>

definition getForestData ::
  "forest_client \<Rightarrow> string option \<Rightarrow> GeospatialQuery \<Rightarrow> ForestProperties FeatureCollection"
where
  "getForestData apiClient authToken query =
     (case getForestData_try apiClient authToken query of
        Inl e \<Rightarrow> \<lparr> fc_type = ''FeatureCollection'', features = [] \<rparr>
      | Inr d \<Rightarrow> d)"

subsection \<open>Species id normalisation\<close>

text \<open>
  A \<open>char\<close> stands for one UTF-16 code unit below 256. \<^verbatim>\<open>toLowerCase\<close> maps A-Z and
  the upper-case letters of Latin-1 to their lower-case letters; \<^verbatim>\<open>\s\<close> matches tab,
  line feed, vertical tab, form feed, carriage return, space and no-break space.
\<close>

definition toLowerChar :: "char \<Rightarrow> char" where
  "toLowerChar c =
     (let n = (of_char c :: nat)
      in if (65 \<le> n \<and> n \<le> 90) \<or> (192 \<le> n \<and> n \<le> 222 \<and> n \<noteq> 215)
         then char_of (n + 32) else c)"

definition toLowerCase :: "string \<Rightarrow> string" where
  "toLowerCase s = map toLowerChar s"

definition isSpace :: "char \<Rightarrow> bool" where
  "isSpace c = ((of_char c :: nat) \<in> {9, 10, 11, 12, 13, 32, 160})"

definition isIdChar :: "char \<Rightarrow> bool" where
  "isIdChar c =
     (let n = (of_char c :: nat)
      in (97 \<le> n \<and> n \<le> 122) \<or> (48 \<le> n \<and> n \<le> 57) \<or> n = 95)"

definition isUnderscore :: "char \<Rightarrow> bool" where
  "isUnderscore c = (c = CHR ''_'')"

text \<open>
  \<^verbatim>\<open>s.replace(/P+/g, r)\<close> for a character class \<open>P\<close>: every maximal run of
  characters of the class becomes the one character \<open>r\<close>.
\<close>

fun replaceRuns :: "(char \<Rightarrow> bool) \<Rightarrow> char \<Rightarrow> string \<Rightarrow> string" where
  "replaceRuns P r [] = []"
| "replaceRuns P r [c] = (if P c then [r] else [c])"
| "replaceRuns P r (c # d # cs) =
     (if P c then (if P d then replaceRuns P r (d # cs) else r # replaceRuns P r (d # cs))
      else c # replaceRuns P r (d # cs))"

text \<open>
  \<^verbatim>\<open>s.replace(/^_|_$/g, '')\<close>: one underscore at the start and one at the end of what
  is left are removed.
\<close>

definition trimUnderscore :: "string \<Rightarrow> string" where
  "trimUnderscore s =
     (let s1 = (case s of [] \<Rightarrow> [] | c # cs \<Rightarrow> if c = CHR ''_'' then cs else s)
      in if s1 \<noteq> [] \<and> last s1 = CHR ''_'' then butlast s1 else s1)"

definition normalizeSpeciesToId :: "string \<Rightarrow> string" where
  "normalizeSpeciesToId speciesName =
     trimUnderscore
       (replaceRuns isUnderscore (CHR ''_'')
          (filter isIdChar
             (replaceRuns isSpace (CHR ''_'')
                (toLowerCase speciesName))))"

subsection \<open>Forest layers\<close>

text \<open>
  The \<^verbatim>\<open>Map<string, Feature[]>\<close> of the grouping is an association list in insertion
  order. \<open>map_push\<close> is the body of the \<^verbatim>\<open>forEach\<close>: a key not yet there gets a new
  entry at the end, and the feature is pushed onto the key's array.
\<close>

fun map_push :: "(string \<times> 'v list) list \<Rightarrow> string \<Rightarrow> 'v \<Rightarrow> (string \<times> 'v list) list" where
  "map_push [] k v = [(k, [v])]"
| "map_push ((k', vs) # m) k v =
     (if k' = k then (k', vs @ [v]) # m else (k', vs) # map_push m k v)"

definition speciesNameOf :: "ForestProperties Feature \<Rightarrow> string" where
  "speciesNameOf feature =
     or_else (case properties feature of None \<Rightarrow> None | Some p \<Rightarrow> p_species p) ''unknown''"

definition layersBySpecies ::
  "ForestProperties Feature list \<Rightarrow> (string \<times> ForestProperties Feature list) list" where
  "layersBySpecies fs = fold (\<lambda>feature m. map_push m (speciesNameOf feature) feature) fs []"

definition forestLayerOf :: "string \<times> ForestProperties Feature list \<Rightarrow> ForestLayer" where
  "forestLayerOf entry =
     (let speciesName = fst entry;
          group = snd entry;
          commonName =
            or_else (case group of
                       [] \<Rightarrow> None
                     | firstFeature # rest \<Rightarrow>
                         (case properties firstFeature of
                            None \<Rightarrow> None
                          | Some p \<Rightarrow> p_commonName p))
                    speciesName;
          speciesId = normalizeSpeciesToId speciesName;
          layerId = ''forest-'' @ speciesId
      in \<lparr> layer_id = layerId, layer_name = commonName, layer_type = ''forest'',
           visible = True, opacity = 0.7, species = Some speciesId,
           geoData = \<lparr> fc_type = ''FeatureCollection'', features = group \<rparr> \<rparr>)"

definition forestLayersFrom :: "ForestProperties FeatureCollection \<Rightarrow> ForestLayer list" where
  "forestLayersFrom forestData = map forestLayerOf (layersBySpecies (features forestData))"

definition getForestLayers ::
  "forest_client \<Rightarrow> string option \<Rightarrow> GeospatialQuery \<Rightarrow> ForestLayer list" where
  "getForestLayers apiClient authToken query =
     forestLayersFrom (getForestData apiClient authToken query)"

subsection \<open>Cadastre layers\<close>

record CadastreParcel =
  parcel_id :: string
  reference :: string
  parcel_geometry :: Geometry
  area :: real
  owner :: "string option"
  landUse :: string

record CadastreProperties =
  cp_id :: string
  cp_type :: string
  cp_parcelNumber :: string
  cp_area :: real
  cp_landUse :: string
  cp_owner :: "string option"

record CadastreLayer =
  c_id :: string
  c_name :: string
  c_type :: string
  c_visible :: bool
  c_opacity :: real
  c_geoData :: "CadastreProperties FeatureCollection"
  c_commune :: "string option"

definition getMockCadastreData :: "GeospatialQuery \<Rightarrow> CadastreParcel list" where
  "getMockCadastreData query =
     [\<lparr> parcel_id = ''parcel_1'', reference = ''AB0123'',
        parcel_geometry =
          Polygon [[(2.31, 46.31), (2.32, 46.32), (2.33, 46.31), (2.32, 46.30), (2.31, 46.31)]],
        area = 2.5, owner = None, landUse = ''For'' @ [CHR 0xEA] @ ''t'' \<rparr>]"

definition getCadastreData :: "GeospatialQuery \<Rightarrow> CadastreParcel list" where
  "getCadastreData query = getMockCadastreData query"

definition parcelFeature :: "CadastreParcel \<Rightarrow> CadastreProperties Feature" where
  "parcelFeature parcel =
     \<lparr> properties = Some \<lparr> cp_id = parcel_id parcel, cp_type = ''cadastre'',
                            cp_parcelNumber = reference parcel, cp_area = area parcel,
                            cp_landUse = landUse parcel, cp_owner = owner parcel \<rparr>,
       geometry = parcel_geometry parcel \<rparr>"

text \<open>What \<^verbatim>\<open>getCadastreLayers\<close> does with the parcels the fetch gave it.\<close>

definition cadastreLayersFrom :: "GeospatialQuery \<Rightarrow> CadastreParcel list \<Rightarrow> CadastreLayer list" where
  "cadastreLayersFrom query cadastreData =
     (let fs = map parcelFeature cadastreData
      in if length fs = 0 then []
         else [\<lparr> c_id = ''cadastre-parcels'', c_name = ''Cadastral parcels'',
                  c_type = ''cadastre'', c_visible = True, c_opacity = 0.4,
                  c_geoData = \<lparr> fc_type = ''FeatureCollection'', features = fs \<rparr>,
                  c_commune = (case q_filters query of None \<Rightarrow> None | Some f \<Rightarrow> commune f) \<rparr>])"

definition getCadastreLayers :: "GeospatialQuery \<Rightarrow> CadastreLayer list" where
  "getCadastreLayers query = cadastreLayersFrom query (getCadastreData query)"

section \<open>Authentication service (\<^verbatim>\<open>services/authService.ts\<close>)\<close>

record RegisterCredentials =
  rc_name :: string
  rc_email :: string
  rc_password :: string

record User =
  user_id :: string
  user_email :: string
  user_name :: "string option"

record RegisterResponse =
  rr_user :: User
  rr_message :: string

record post_request =
  post_url :: string
  post_body :: "(string \<times> string) list"

text \<open>
  An error of the HTTP client: the server answered with a status and perhaps a message,
  or no answer came, or the request could not be made.
\<close>

datatype axios_error =
  ResponseError nat "string option"
| NoResponse
| SetupError "string option"

definition handleAuthError :: "axios_error \<Rightarrow> string" where
  "handleAuthError e =
     (case e of
        ResponseError status msg \<Rightarrow>
          (if status = 400 then or_else msg ''Invalid input data''
           else if status = 401 then ''Invalid credentials''
           else if status = 409 then ''Email is already registered''
           else or_else msg ''Server error'')
      | NoResponse \<Rightarrow> ''Connection error. Please check your internet connection.''
      | SetupError msg \<Rightarrow> or_else msg ''Unexpected error'')"

definition registerRequest :: "RegisterCredentials \<Rightarrow> post_request" where
  "registerRequest credentials =
     \<lparr> post_url = ''/auth/register'',
       post_body = [(''email'', rc_email credentials), (''password'', rc_password credentials)] \<rparr>"

definition register ::
  "(post_request \<Rightarrow> axios_error + RegisterResponse) \<Rightarrow> RegisterCredentials
     \<Rightarrow> string + RegisterResponse" where
  "register post credentials =
     (case post (registerRequest credentials) of
        Inl e \<Rightarrow> Inl (handleAuthError e)
      | Inr body \<Rightarrow> Inr body)"

section \<open>Notions used in the proofs\<close>

text \<open>No two underscores stand side by side.\<close>

fun noDouble :: "string \<Rightarrow> bool" where
  "noDouble (c # d # cs) = (\<not> (c = CHR ''_'' \<and> d = CHR ''_'') \<and> noDouble (d # cs))"
| "noDouble cs = True"

text \<open>The string neither starts nor ends with an underscore.\<close>

definition cleanEnds :: "string \<Rightarrow> bool" where
  "cleanEnds s = (s = [] \<or> (hd s \<noteq> CHR ''_'' \<and> last s \<noteq> CHR ''_''))"

text \<open>The first half of \<open>trimUnderscore\<close>: the underscore at the start is removed.\<close>

definition dropLeading :: "string \<Rightarrow> string" where
  "dropLeading s = (case s of [] \<Rightarrow> [] | c # cs \<Rightarrow> if c = CHR ''_'' then cs else s)"

section \<open>The set model\<close>

lemma set_set_add: "set (set_add s x) = insert x (set s)"
  by (auto simp: set_add_def set_has_def)

lemma set_set_delete: "set (set_delete s x) = set s - {x}"
  by (auto simp: set_delete_def)

lemma set_fold_set_add: "set (fold (\<lambda>x s. set_add s x) xs acc) = set acc \<union> set xs"
  by (induction xs arbitrary: acc) (auto simp: set_set_add)

lemma set_new_Set: "set (new_Set xs) = set xs"
  by (simp add: new_Set_def set_fold_set_add)

lemma distinct_set_add: "distinct s \<Longrightarrow> distinct (set_add s x)"
  by (simp add: set_add_def set_has_def)

lemma distinct_fold_set_add: "distinct acc \<Longrightarrow> distinct (fold (\<lambda>x s. set_add s x) xs acc)"
  by (induction xs arbitrary: acc) (simp_all add: distinct_set_add)

lemma distinct_new_Set: "distinct (new_Set xs)"
  by (simp add: new_Set_def distinct_fold_set_add)

section \<open>The query builder\<close>

text \<open>
  C1, as the code has it. For every debounced viewport the bounding box of the query is
  the window \<open>[longitude - 0.5, latitude - 0.5, longitude + 0.5, latitude + 0.5]\<close> around
  the viewport's centre, as \<open>[west, south, east, north]\<close>, and it is the same at every
  zoom. The window whose half-extents are \<open>0.01 * 2^(14 - zoom)\<close> in latitude and
  \<open>0.015 * 2^(14 - zoom)\<close> in longitude is what \<open>calculateBoundingBox\<close> returns; the
  query builder does not call it.
\<close>

theorem geoQuery_bbox_fixed_window:
  "q_bbox (geoQuery v f) =
     Some (longitude v - 0.5, latitude v - 0.5, longitude v + 0.5, latitude v + 0.5)
   \<and> q_bbox (geoQuery (v\<lparr>zoom := z\<rparr>) f) = q_bbox (geoQuery v f)
   \<and> calculateBoundingBox c z =
       (lng c - 0.015 * 2 powr (14 - z), lat c - 0.01 * 2 powr (14 - z),
        lng c + 0.015 * 2 powr (14 - z), lat c + 0.01 * 2 powr (14 - z))"
  by (simp add: geoQuery_def calculateBoundingBox_def Let_def)

text \<open>
  Against C1 as stated. At the map page's initial viewport (latitude 46.2276, longitude 2.2137, zoom 6) and the
  default filters, the query's bounding box is \<open>[1.7137, 45.7276, 2.7137, 46.7276]\<close>,
  not the zoom-scaled window \<open>[-1.6263, 43.6676, 6.0537, 48.7876]\<close>.
\<close>

theorem geoQuery_bbox_counterexample:
  "q_bbox (geoQuery \<lparr> latitude = 46.2276, longitude = 2.2137, zoom = 6, bearing = 0, pitch = 0 \<rparr>
                    \<lparr> region = None, department = None, commune = None,
                      treeSpecies = Some [], showCadastre = False, dateRange = None \<rparr>)
     = Some (1.7137, 45.7276, 2.7137, 46.7276)
   \<and> calculateBoundingBox \<lparr> lat = 46.2276, lng = 2.2137 \<rparr> 6
     = (-1.6263, 43.6676, 6.0537, 48.7876)
   \<and> q_bbox (geoQuery \<lparr> latitude = 46.2276, longitude = 2.2137, zoom = 6, bearing = 0, pitch = 0 \<rparr>
                    \<lparr> region = None, department = None, commune = None,
                      treeSpecies = Some [], showCadastre = False, dateRange = None \<rparr>)
     \<noteq> Some (calculateBoundingBox \<lparr> lat = 46.2276, lng = 2.2137 \<rparr> 6)"
  by (simp add: geoQuery_def calculateBoundingBox_def Let_def)

text \<open>
  C2. The query built from any viewport and filter state has no species filter, and
  neither has the key of the forest query. Two filter states that differ only in the
  selected species give the same query, the same key and the same request to the forest
  endpoint, and that request has no \<^verbatim>\<open>species\<close> parameter. The fetch layer fetches per
  key, so a change of the selected species alone starts no fetch.
\<close>

theorem geoQuery_ignores_treeSpecies:
  "geoQuery v (f\<lparr>treeSpecies := sel\<rparr>) = geoQuery v (f\<lparr>treeSpecies := sel'\<rparr>)
   \<and> map_option treeSpecies (q_filters (geoQuery v f)) = Some None
   \<and> forestQueryKey (geoQuery v (f\<lparr>treeSpecies := sel\<rparr>))
       = forestQueryKey (geoQuery v (f\<lparr>treeSpecies := sel'\<rparr>))
   \<and> map_option treeSpecies (q_filters (snd (snd (forestQueryKey (geoQuery v f))))) = Some None
   \<and> forestRequest (geoQuery v (f\<lparr>treeSpecies := sel\<rparr>)) tok
       = forestRequest (geoQuery v (f\<lparr>treeSpecies := sel'\<rparr>)) tok
   \<and> req_params (forestRequest (geoQuery v f) tok) = []"
  by (simp add: geoQuery_def forestQueryKey_def forestRequest_def addAuthHeader_def
      split: option.split)

section \<open>The forest fetch\<close>

text \<open>
  C8. Whatever else the HTTP client does, when it answers the forest request with a
  response that has no body, or with a body that has no \<^verbatim>\<open>features\<close> key,
  \<open>getForestData\<close> returns the empty feature collection: the error thrown inside the
  \<^verbatim>\<open>try\<close> block does not reach the caller.
\<close>

theorem getForestData_malformed_empty:
  "getForestData (api(forestRequest q tok := Inr \<lparr> response_data = None \<rparr>)) tok q
     = \<lparr> fc_type = ''FeatureCollection'', features = [] \<rparr>
   \<and> getForestData (api(forestRequest q tok :=
                          Inr \<lparr> response_data = Some (d\<lparr>body_features := None\<rparr>) \<rparr>)) tok q
     = \<lparr> fc_type = ''FeatureCollection'', features = [] \<rparr>
   \<and> getForestData_try (api(forestRequest q tok :=
                          Inr \<lparr> response_data = Some (d\<lparr>body_features := None\<rparr>) \<rparr>)) tok q
     = Inl (Error ''Invalid response from forest API'')"
  by (simp add: getForestData_def getForestData_try_def)

section \<open>Cadastre layers\<close>

text \<open>
  C7. From no parcels the assembly returns no layer. From one or more parcels it returns
  exactly one layer, with id \<^verbatim>\<open>cadastre-parcels\<close> and opacity 0.4, whose feature
  collection has one feature per parcel, in order, each carrying the parcel's id, the
  type \<^verbatim>\<open>cadastre\<close>, the parcel's reference as parcel number, its area, its land use and
  its owner.
\<close>

theorem cadastreLayersFrom_layers:
  "cadastreLayersFrom q [] = []
   \<and> length (cadastreLayersFrom q (p # ps)) = 1
   \<and> map c_id (cadastreLayersFrom q (p # ps)) = [''cadastre-parcels'']
   \<and> map c_opacity (cadastreLayersFrom q (p # ps)) = [0.4]
   \<and> map (\<lambda>layer. length (features (c_geoData layer))) (cadastreLayersFrom q (p # ps))
       = [length (p # ps)]
   \<and> map (\<lambda>layer. map properties (features (c_geoData layer))) (cadastreLayersFrom q (p # ps))
       = [map (\<lambda>parcel. Some \<lparr> cp_id = parcel_id parcel, cp_type = ''cadastre'',
                                 cp_parcelNumber = reference parcel, cp_area = area parcel,
                                 cp_landUse = landUse parcel, cp_owner = owner parcel \<rparr>)
              (p # ps)]"
  by (simp add: cadastreLayersFrom_def Let_def parcelFeature_def comp_def)

section \<open>Registration\<close>

text \<open>
  C9. The request \<open>register\<close> sends goes to \<^verbatim>\<open>/auth/register\<close>, and on success the
  backend's answer is returned. The body of the request has the email and the password of
  the credentials and nothing else: the name is not sent.
\<close>

theorem register_body_omits_name:
  "map fst (post_body (registerRequest credentials)) = [''email'', ''password'']
   \<and> post_url (registerRequest credentials) = ''/auth/register''
   \<and> register (post(registerRequest credentials := Inr answer)) credentials = Inr answer
   \<and> registerRequest \<lparr> rc_name = ''Ada'', rc_email = ''ada@example.org'', rc_password = ''Secret1'' \<rparr>
     = \<lparr> post_url = ''/auth/register'',
         post_body = [(''email'', ''ada@example.org''), (''password'', ''Secret1'')] \<rparr>
   \<and> map_of (post_body (registerRequest
        \<lparr> rc_name = ''Ada'', rc_email = ''ada@example.org'', rc_password = ''Secret1'' \<rparr>)) ''name''
     = None"
  by (simp add: registerRequest_def register_def)

section \<open>Species id normalisation\<close>

lemma toLowerChar_idChar: "isIdChar c \<Longrightarrow> toLowerChar c = c"
  by (auto simp: isIdChar_def toLowerChar_def Let_def)

lemma isSpace_idChar: "isIdChar c \<Longrightarrow> \<not> isSpace c"
  by (auto simp: isIdChar_def isSpace_def Let_def)

lemma isIdChar_underscore: "isIdChar (CHR ''_'')"
  by (simp add: isIdChar_def)

lemma replaceRuns_none: "list_all (\<lambda>c. \<not> P c) s \<Longrightarrow> replaceRuns P r s = s"
  by (induction P r s rule: replaceRuns.induct) auto

lemma replaceRuns_head: "\<not> P d \<Longrightarrow> replaceRuns P r (d # cs) = d # replaceRuns P r cs"
  by (cases cs) auto

lemma set_replaceRuns: "set (replaceRuns P r s) \<subseteq> insert r (set s)"
  by (induction P r s rule: replaceRuns.induct) auto

lemma noDouble_Cons: "c \<noteq> CHR ''_'' \<Longrightarrow> noDouble (c # cs) = noDouble cs"
  by (cases cs) auto

lemma noDouble_tl: "noDouble (c # cs) \<Longrightarrow> noDouble cs"
  by (cases cs) auto

lemma noDouble_replaceRuns: "noDouble (replaceRuns isUnderscore (CHR ''_'') s)"
proof (induction isUnderscore "CHR ''_''" s rule: replaceRuns.induct)
  case 1
  show ?case by simp
next
  case (2 c)
  show ?case by simp
next
  case (3 c d cs)
  show ?case
  proof (cases "c = CHR ''_''")
    case True
    show ?thesis
    proof (cases "d = CHR ''_''")
      case True
      with \<open>c = CHR ''_''\<close> 3 show ?thesis by (simp add: isUnderscore_def)
    next
      case False
      then have "replaceRuns isUnderscore (CHR ''_'') (d # cs) = d # replaceRuns isUnderscore (CHR ''_'') cs"
        by (simp add: replaceRuns_head isUnderscore_def)
      with False \<open>c = CHR ''_''\<close> 3 show ?thesis by (simp add: isUnderscore_def)
    qed
  next
    case False
    with 3 show ?thesis by (simp add: isUnderscore_def noDouble_Cons)
  qed
qed

lemma replaceRuns_noDouble: "noDouble s \<Longrightarrow> replaceRuns isUnderscore (CHR ''_'') s = s"
  by (induction isUnderscore "CHR ''_''" s rule: replaceRuns.induct)
     (auto simp: isUnderscore_def)

lemma noDouble_butlast: "noDouble s \<Longrightarrow> noDouble (butlast s)"
  by (induction s rule: noDouble.induct) (auto split: if_splits)

lemma noDouble_last_butlast:
  "noDouble s \<Longrightarrow> butlast s \<noteq> [] \<Longrightarrow> last s = CHR ''_'' \<Longrightarrow> last (butlast s) \<noteq> CHR ''_''"
  by (induction s rule: noDouble.induct) (auto split: if_splits)

lemma hd_butlast: "butlast s \<noteq> [] \<Longrightarrow> hd (butlast s) = hd s"
  by (cases s) (auto split: if_splits)

lemma set_trimUnderscore: "set (trimUnderscore s) \<subseteq> set s"
  by (cases s) (auto simp: trimUnderscore_def Let_def dest: in_set_butlastD)

lemma trimUnderscore_alt:
  "trimUnderscore s =
     (if dropLeading s \<noteq> [] \<and> last (dropLeading s) = CHR ''_''
      then butlast (dropLeading s) else dropLeading s)"
  by (simp add: trimUnderscore_def dropLeading_def)

lemma noDouble_dropLeading: "noDouble s \<Longrightarrow> noDouble (dropLeading s)"
  by (cases s) (auto simp: dropLeading_def dest: noDouble_tl)

lemma hd_dropLeading:
  assumes "noDouble s" and "dropLeading s \<noteq> []"
  shows "hd (dropLeading s) \<noteq> CHR ''_''"
proof (cases s)
  case Nil
  with assms(2) show ?thesis by (simp add: dropLeading_def)
next
  case (Cons c cs)
  show ?thesis
  proof (cases "c = CHR ''_''")
    case True
    with Cons have eq: "dropLeading s = cs" by (simp add: dropLeading_def)
    with assms(2) obtain d ds where "cs = d # ds" by (cases cs) auto
    with assms(1) Cons True eq show ?thesis by auto
  next
    case False
    with Cons show ?thesis by (simp add: dropLeading_def)
  qed
qed

lemma noDouble_trimUnderscore: "noDouble s \<Longrightarrow> noDouble (trimUnderscore s)"
  by (simp add: trimUnderscore_alt noDouble_dropLeading noDouble_butlast)

lemma cleanEnds_trimUnderscore:
  assumes nd: "noDouble s"
  shows "cleanEnds (trimUnderscore s)"
proof (cases "dropLeading s \<noteq> [] \<and> last (dropLeading s) = CHR ''_''")
  case True
  then have t: "trimUnderscore s = butlast (dropLeading s)"
    by (simp add: trimUnderscore_alt)
  show ?thesis
  proof (cases "butlast (dropLeading s) = []")
    case True
    with t show ?thesis by (simp add: cleanEnds_def)
  next
    case False
    have "hd (butlast (dropLeading s)) \<noteq> CHR ''_''"
      using False hd_dropLeading [OF nd] True by (simp add: hd_butlast)
    moreover have "last (butlast (dropLeading s)) \<noteq> CHR ''_''"
      using noDouble_dropLeading [OF nd] False True by (simp add: noDouble_last_butlast)
    ultimately show ?thesis by (simp add: t cleanEnds_def)
  qed
next
  case False
  then have t: "trimUnderscore s = dropLeading s"
    by (auto simp: trimUnderscore_alt)
  show ?thesis
    using False hd_dropLeading [OF nd] by (auto simp: t cleanEnds_def)
qed

lemma trimUnderscore_clean: "cleanEnds s \<Longrightarrow> trimUnderscore s = s"
  by (cases s) (auto simp: cleanEnds_def trimUnderscore_def)

lemma normalizeSpeciesToId_idChars: "list_all isIdChar (normalizeSpeciesToId s)"
proof -
  let ?a = "filter isIdChar (replaceRuns isSpace (CHR ''_'') (toLowerCase s))"
  have "set ?a \<subseteq> Collect isIdChar" by auto
  moreover have "set (replaceRuns isUnderscore (CHR ''_'') ?a) \<subseteq> insert (CHR ''_'') (set ?a)"
    by (rule set_replaceRuns)
  moreover have "set (normalizeSpeciesToId s) \<subseteq> set (replaceRuns isUnderscore (CHR ''_'') ?a)"
    unfolding normalizeSpeciesToId_def by (rule set_trimUnderscore)
  ultimately have "set (normalizeSpeciesToId s) \<subseteq> Collect isIdChar"
    using isIdChar_underscore by blast
  then show ?thesis by (auto simp: list_all_iff)
qed

lemma normalizeSpeciesToId_noDouble: "noDouble (normalizeSpeciesToId s)"
  unfolding normalizeSpeciesToId_def
  by (intro noDouble_trimUnderscore noDouble_replaceRuns)

lemma normalizeSpeciesToId_cleanEnds: "cleanEnds (normalizeSpeciesToId s)"
  unfolding normalizeSpeciesToId_def
  by (intro cleanEnds_trimUnderscore noDouble_replaceRuns)

lemma normalizeSpeciesToId_fixed:
  assumes "list_all isIdChar t" and "noDouble t" and "cleanEnds t"
  shows "normalizeSpeciesToId t = t"
proof -
  have 1: "toLowerCase t = t"
    using assms(1) unfolding toLowerCase_def
    by (intro map_idI) (auto simp: list_all_iff toLowerChar_idChar)
  have 2: "replaceRuns isSpace (CHR ''_'') t = t"
    using assms(1) by (intro replaceRuns_none) (auto simp: list_all_iff isSpace_idChar)
  have 3: "filter isIdChar t = t"
    using assms(1) by (simp add: list_all_iff)
  have 4: "replaceRuns isUnderscore (CHR ''_'') t = t"
    using assms(2) by (rule replaceRuns_noDouble)
  have 5: "trimUnderscore t = t"
    using assms(3) by (rule trimUnderscore_clean)
  show ?thesis by (simp add: normalizeSpeciesToId_def 1 2 3 4 5)
qed

text \<open>
  C5. Normalising a species label a second time changes nothing: the result of
  \<open>normalizeSpeciesToId\<close> has only characters of \<^verbatim>\<open>[a-z0-9_]\<close>, no two underscores side
  by side and no underscore at either end, and every step of the normalisation leaves
  such a string as it is. \<^verbatim>\<open>Pinus sylvestris\<close> becomes \<^verbatim>\<open>pinus_sylvestris\<close>, which
  stays \<^verbatim>\<open>pinus_sylvestris\<close>.
\<close>

theorem normalizeSpeciesToId_idempotent:
  "normalizeSpeciesToId (normalizeSpeciesToId s) = normalizeSpeciesToId s
   \<and> normalizeSpeciesToId ''Pinus sylvestris'' = ''pinus_sylvestris''
   \<and> normalizeSpeciesToId ''pinus_sylvestris'' = ''pinus_sylvestris''"
proof (intro conjI)
  show "normalizeSpeciesToId (normalizeSpeciesToId s) = normalizeSpeciesToId s"
    by (rule normalizeSpeciesToId_fixed
        [OF normalizeSpeciesToId_idChars normalizeSpeciesToId_noDouble normalizeSpeciesToId_cleanEnds])
  show "normalizeSpeciesToId ''Pinus sylvestris'' = ''pinus_sylvestris''"
    by code_simp
  show "normalizeSpeciesToId ''pinus_sylvestris'' = ''pinus_sylvestris''"
    by code_simp
qed

section \<open>Forest layers\<close>

lemma map_push_map:
  "distinct ks \<Longrightarrow>
   map_push (map (\<lambda>k. (k, G k)) ks) k' v =
     (if k' \<in> set ks then map (\<lambda>k. (k, if k = k' then G k @ [v] else G k)) ks
      else map (\<lambda>k. (k, G k)) ks @ [(k', [v])])"
  by (induction ks) auto

lemma firstKeys_snoc:
  "rev (remdups (rev (ks @ [k]))) =
     (if k \<in> set ks then rev (remdups (rev ks)) else rev (remdups (rev ks)) @ [k])"
  by simp

lemma layersBySpecies_snoc:
  "layersBySpecies (fs @ [f]) = map_push (layersBySpecies fs) (speciesNameOf f) f"
  by (simp add: layersBySpecies_def)

lemma layersBySpecies_eq:
  "layersBySpecies fs =
     map (\<lambda>k. (k, filter (\<lambda>f. speciesNameOf f = k) fs))
         (rev (remdups (rev (map speciesNameOf fs))))"
proof (induction fs rule: rev_induct)
  case Nil
  show ?case by (simp add: layersBySpecies_def)
next
  case (snoc f fs)
  let ?ks = "rev (remdups (rev (map speciesNameOf fs)))"
  have d: "distinct ?ks" by simp
  have s: "set ?ks = speciesNameOf ` set fs" by simp
  show ?case
  proof (cases "speciesNameOf f \<in> speciesNameOf ` set fs")
    case True
    then show ?thesis
      using snoc d s
      by (simp add: layersBySpecies_snoc map_push_map)
  next
    case False
    then have "\<forall>g\<in>set fs. speciesNameOf g \<noteq> speciesNameOf f"
      by (metis image_eqI)
    then have "filter (\<lambda>g. speciesNameOf g = speciesNameOf f) fs = []"
      by (simp add: filter_empty_conv)
    with False show ?thesis
      using snoc d s
      by (auto simp add: layersBySpecies_snoc map_push_map)
  qed
qed

lemma geoData_forestLayerOf: "features (geoData (forestLayerOf e)) = snd e"
  by (simp add: forestLayerOf_def Let_def)

text \<open>
  C4, as the code has it. The bucket of a feature is its raw species value, or
  \<^verbatim>\<open>unknown\<close> when the species is missing or empty. The assembly emits exactly one layer
  per distinct bucket, each layer holding exactly the features of its bucket in the
  order of the input, and the layers come in the order in which their buckets are first
  met in the input (\<open>rev (remdups (rev ks))\<close> keeps the first occurrence of every
  key of \<open>ks\<close>, in order). Three features with species \<^verbatim>\<open>Quercus robur\<close>,
  \<^verbatim>\<open>Quercus robur\<close>, \<^verbatim>\<open>Fagus sylvatica\<close> give two layers, of 2 features and of 1.
\<close>

theorem forestLayersFrom_groups:
  "map (\<lambda>layer. features (geoData layer)) (forestLayersFrom fc) =
     map (\<lambda>k. filter (\<lambda>f. speciesNameOf f = k) (features fc))
         (rev (remdups (rev (map speciesNameOf (features fc)))))
   \<and> length (forestLayersFrom fc) = card (speciesNameOf ` set (features fc))
   \<and> map (\<lambda>layer. length (features (geoData layer)))
        (forestLayersFrom
           \<lparr> fc_type = t,
             features = [f1\<lparr>properties := Some (p1\<lparr>p_species := Some ''Quercus robur''\<rparr>)\<rparr>,
                         f2\<lparr>properties := Some (p2\<lparr>p_species := Some ''Quercus robur''\<rparr>)\<rparr>,
                         f3\<lparr>properties := Some (p3\<lparr>p_species := Some ''Fagus sylvatica''\<rparr>)\<rparr>] \<rparr>)
       = [2, 1]"
proof (intro conjI)
  show "map (\<lambda>layer. features (geoData layer)) (forestLayersFrom fc) =
     map (\<lambda>k. filter (\<lambda>f. speciesNameOf f = k) (features fc))
         (rev (remdups (rev (map speciesNameOf (features fc)))))"
    by (simp add: forestLayersFrom_def layersBySpecies_eq geoData_forestLayerOf comp_def)
  have "length (forestLayersFrom fc) = length (remdups (rev (map speciesNameOf (features fc))))"
    by (simp add: forestLayersFrom_def layersBySpecies_eq)
  also have "\<dots> = card (set (rev (map speciesNameOf (features fc))))"
    by (rule length_remdups_card_conv)
  finally show "length (forestLayersFrom fc) = card (speciesNameOf ` set (features fc))"
    by simp
  show "map (\<lambda>layer. length (features (geoData layer)))
        (forestLayersFrom
           \<lparr> fc_type = t,
             features = [f1\<lparr>properties := Some (p1\<lparr>p_species := Some ''Quercus robur''\<rparr>)\<rparr>,
                         f2\<lparr>properties := Some (p2\<lparr>p_species := Some ''Quercus robur''\<rparr>)\<rparr>,
                         f3\<lparr>properties := Some (p3\<lparr>p_species := Some ''Fagus sylvatica''\<rparr>)\<rparr>] \<rparr>)
       = [2, 1]"
    by (simp add: forestLayersFrom_def layersBySpecies_def speciesNameOf_def or_else_def
        geoData_forestLayerOf)
qed

text \<open>
  Against C4 as stated. Two features whose species are the empty string and \<^verbatim>\<open>unknown\<close> both carry the
  species property, with two distinct raw values, and yet land in one layer.
\<close>

theorem forestLayersFrom_falsy_species_counterexample:
  "(let fc = \<lparr> fc_type = ''FeatureCollection'',
                features =
                  [\<lparr> properties = Some \<lparr> p_species = Some [], p_commonName = None \<rparr>,
                     geometry = Polygon [] \<rparr>,
                   \<lparr> properties = Some \<lparr> p_species = Some ''unknown'', p_commonName = None \<rparr>,
                     geometry = Polygon [] \<rparr>] \<rparr>
    in length (forestLayersFrom fc) = 1
       \<and> length (remdups (map (\<lambda>f. case properties f of
                                        None \<Rightarrow> ''unknown''
                                      | Some p \<Rightarrow> (case p_species p of
                                                    None \<Rightarrow> ''unknown''
                                                  | Some s \<Rightarrow> s))
                               (features fc))) = 2)"
  by (simp add: forestLayersFrom_def layersBySpecies_def speciesNameOf_def or_else_def)

section \<open>Client-side species filter\<close>

lemma species_forestLayerOf: "species (forestLayerOf e) = Some (normalizeSpeciesToId (fst e))"
  by (simp add: forestLayerOf_def Let_def)

lemma forestLayersFrom_species:
  "layer \<in> set (forestLayersFrom fc) \<Longrightarrow> species layer \<noteq> None"
  by (auto simp: forestLayersFrom_def species_forestLayerOf)

lemma or_else_empty: "or_else x [] = (case x of None \<Rightarrow> [] | Some y \<Rightarrow> y)"
  by (simp add: or_else_def split: option.split)

text \<open>
  On the layers the assembly builds, which all have a species id, the function handed to
  \<^verbatim>\<open>useMemo\<close> returns every layer when the selection is absent or empty, and otherwise
  exactly the layers whose species id is a member of the selection.
\<close>

lemma filterForestLayers_assembled:
  "filterForestLayers (forestLayersFrom fc) (f\<lparr>treeSpecies := None\<rparr>) = forestLayersFrom fc
   \<and> filterForestLayers (forestLayersFrom fc) (f\<lparr>treeSpecies := Some []\<rparr>) = forestLayersFrom fc
   \<and> filterForestLayers (forestLayersFrom fc) (f\<lparr>treeSpecies := Some (s # sel)\<rparr>)
       = filter (\<lambda>layer. species layer \<in> Some ` set (s # sel)) (forestLayersFrom fc)"
proof -
  have "filter (\<lambda>layer. or_else (species layer) [] \<in> set (s # sel)) (forestLayersFrom fc)
        = filter (\<lambda>layer. species layer \<in> Some ` set (s # sel)) (forestLayersFrom fc)"
  proof (rule filter_cong [OF refl])
    fix layer assume "layer \<in> set (forestLayersFrom fc)"
    then obtain x where "species layer = Some x"
      using forestLayersFrom_species by blast
    then show "(or_else (species layer) [] \<in> set (s # sel))
               = (species layer \<in> Some ` set (s # sel))"
      by (auto simp: or_else_empty)
  qed
  then show ?thesis by (simp add: filterForestLayers_def)
qed

text \<open>
  The first render computes the value, and so does a render in which the array of layers
  or the joined selection differs from the remembered one; a render with both unchanged
  returns the remembered value.
\<close>

lemma filteredForestLayers_computed:
  "memo_value (filteredForestLayers None r layers f) = filterForestLayers layers f
   \<and> (memo_layers_ref m \<noteq> r \<or> memo_species_key m \<noteq> map_option join_comma (treeSpecies f)
        \<longrightarrow> memo_value (filteredForestLayers (Some m) r layers f) = filterForestLayers layers f)
   \<and> (memo_layers_ref m = r \<and> memo_species_key m = map_option join_comma (treeSpecies f)
        \<longrightarrow> filteredForestLayers (Some m) r layers f = m)"
  by (auto simp: filteredForestLayers_def Let_def split: option.split)

lemma normalize_quercus_robur: "normalizeSpeciesToId ''Quercus robur'' = ''quercus_robur''"
  by code_simp

text \<open>
  C6. The selections \<^verbatim>\<open>[]\<close> and \<^verbatim>\<open>[""]\<close> both join to the empty string, so a change
  from one to the other is not seen by \<^verbatim>\<open>useMemo\<close>. The fetch has brought one feature of
  species \<^verbatim>\<open>Quercus robur\<close>, assembled into one layer with species id
  \<^verbatim>\<open>quercus_robur\<close>. Rendered with the default filters (nothing selected) the hook
  returns that layer. When the id \<^verbatim>\<open>""\<close> is then selected it still returns the layer,
  whose species id is not selected. When a new fetch then brings the same layers in a new
  array the value is computed again and is empty. When the selection is then cleared the
  hook still returns no layer, although nothing is selected.
\<close>

theorem filteredForestLayers_stale_selection:
  "(let fc = \<lparr> fc_type = ''FeatureCollection'',
                features =
                  [\<lparr> properties = Some \<lparr> p_species = Some ''Quercus robur'',
                                          p_commonName = Some ''Chene pedoncule'' \<rparr>,
                     geometry = Polygon [] \<rparr>] \<rparr>;
        layers = forestLayersFrom fc;
        nothing = \<lparr> region = None, department = None, commune = None,
                    treeSpecies = Some [], showCadastre = False, dateRange = None \<rparr>;
        blank = nothing\<lparr> treeSpecies := Some [[]] \<rparr>;
        render1 = filteredForestLayers None 0 layers nothing;
        render2 = filteredForestLayers (Some render1) 0 layers blank;
        render3 = filteredForestLayers (Some render2) 1 layers blank;
        render4 = filteredForestLayers (Some render3) 1 layers nothing
    in map species layers = [Some ''quercus_robur'']
       \<and> memo_value render1 = layers
       \<and> memo_value render2 = layers
       \<and> filterForestLayers layers blank = []
       \<and> memo_value render3 = []
       \<and> memo_value render4 = []
       \<and> filterForestLayers layers nothing = layers
       \<and> memo_value render4 \<noteq> layers)"
  by (simp add: forestLayersFrom_def layersBySpecies_def speciesNameOf_def or_else_def
      forestLayerOf_def normalize_quercus_robur filterForestLayers_def filteredForestLayers_def
      Let_def)

section \<open>Visibility tracking\<close>

lemma sort_eq_imp_set_eq: "sort xs = sort ys \<Longrightarrow> set xs = set ys"
  by (metis set_sort)

lemma set_fold_add_layers:
  "set (fold (\<lambda>layer s. if \<not> set_has s (layer_id layer) then set_add s (layer_id layer) else s)
          ls acc)
     = set acc \<union> layer_id ` set ls"
  by (induction ls arbitrary: acc) (auto simp: set_set_add set_has_def)

lemma set_fold_delete_stale:
  "set (fold (\<lambda>ident s. if \<not> set_has F ident then set_delete s ident else s) xs acc)
     = set acc - {x \<in> set xs. x \<notin> set F}"
  by (induction xs arbitrary: acc) (auto simp: set_set_delete set_has_def)

text \<open>
  What the updater computes: the tracked set it returns has exactly the ids of the fetched
  layers as its members, whatever the tracked set was before. Tracked \<open>{A, B}\<close> with
  fetched layers \<open>B, C\<close> gives \<open>{B, C}\<close>.
\<close>

lemma syncVisibleLayerIds_set:
  "set (syncVisibleLayerIds fetched prev) = layer_id ` set fetched
   \<and> syncVisibleLayerIds [l\<lparr>layer_id := ''B''\<rparr>, m\<lparr>layer_id := ''C''\<rparr>] [''A'', ''B'']
       = [''B'', ''C'']"
proof
  show "set (syncVisibleLayerIds fetched prev) = layer_id ` set fetched"
  proof (cases "sort prev = sort (new_Set (map layer_id fetched))")
    case True
    then have "set prev = set (new_Set (map layer_id fetched))"
      by (rule sort_eq_imp_set_eq)
    with True show ?thesis
      by (simp add: syncVisibleLayerIds_def set_new_Set)
  next
    case False
    then show ?thesis
      by (auto simp: syncVisibleLayerIds_def Let_def set_fold_delete_stale
          set_fold_add_layers set_new_Set)
  qed
next
  show "syncVisibleLayerIds [l\<lparr>layer_id := ''B''\<rparr>, m\<lparr>layer_id := ''C''\<rparr>] [''A'', ''B'']
          = [''B'', ''C'']"
    by (simp add: syncVisibleLayerIds_def Let_def new_Set_def set_add_def set_has_def
        set_delete_def)
qed

text \<open>
  C3. The tracked set holds the visible ids only, so an id the user has hidden looks like
  a new one to the updater. A first fetch brings the layers \<^verbatim>\<open>forest-a\<close> and
  \<^verbatim>\<open>forest-b\<close> and the user hides \<^verbatim>\<open>forest-a\<close>: the page marks it not visible. A
  second fetch that brings \<^verbatim>\<open>forest-a\<close>, \<^verbatim>\<open>forest-b\<close> and \<^verbatim>\<open>forest-c\<close> makes
  \<^verbatim>\<open>forest-a\<close> visible again, and so does a second fetch that brings the same two layers
  again: the id is among the fetched ids before and after, and the user's toggle is lost.
\<close>

theorem syncVisibleLayerIds_resets_hidden:
  "(let a = \<lparr> layer_id = ''forest-a'', layer_name = ''A'', layer_type = ''forest'',
               visible = True, opacity = 0.7, species = Some ''a'',
               geoData = \<lparr> fc_type = ''FeatureCollection'', features = [] \<rparr> \<rparr>;
        b = a\<lparr> layer_id := ''forest-b'', layer_name := ''B'', species := Some ''b'' \<rparr>;
        c = a\<lparr> layer_id := ''forest-c'', layer_name := ''C'', species := Some ''c'' \<rparr>;
        shown = syncVisibleLayerIds [a, b] [];
        hidden = toggleLayer ''forest-a'' shown;
        refreshed = syncVisibleLayerIds [a, b, c] hidden;
        again = syncVisibleLayerIds [a, b] hidden
    in shown = [''forest-a'', ''forest-b'']
       \<and> hidden = [''forest-b'']
       \<and> map visible (visibleForestLayers [a, b] hidden) = [False, True]
       \<and> refreshed = [''forest-b'', ''forest-a'', ''forest-c'']
       \<and> map visible (visibleForestLayers [a, b, c] refreshed) = [True, True, True]
       \<and> again = [''forest-b'', ''forest-a'']
       \<and> map visible (visibleForestLayers [a, b] again) = [True, True])"
  by (simp add: syncVisibleLayerIds_def toggleLayer_def Let_def new_Set_def set_add_def
      set_has_def set_delete_def visibleForestLayers_def)

text \<open>
  C10. Toggling a layer id twice gives back a set with the same members, and toggling it
  once changes whether that id is a member and changes nothing for any other id.
\<close>

theorem toggleLayer_involution:
  "set (toggleLayer x (toggleLayer x S)) = set S
   \<and> (\<forall>y. set_has (toggleLayer x S) y = (set_has S y \<noteq> (y = x)))"
  by (auto simp: toggleLayer_def Let_def set_has_def set_set_add set_set_delete set_new_Set)

end
